theory Spec2Isabelle
  imports Main
begin

section \<open>The DMN modeler of \<^verbatim>\<open>lib/Modeler.js\<close>\<close>

text \<open>
  JavaScript objects are reached through references. A reference is a natural number;
  the stores below map every reference to the object it denotes, so that two fields
  holding the same reference alias the same object.
\<close>

type_synonym elem_id = string
type_synonym ref = nat

subsection \<open>The identifier registry\<close>

text \<open>
  Modelled from the spec: the registry class \<^verbatim>\<open>Ids\<close> (\<^verbatim>\<open>require('ids')\<close>) is not part of
  \<^verbatim>\<open>Modeler.js\<close>. Section 4.1 gives its contract: a set of claimed identifiers, each
  associated with the element that owns it, parameterised by a format policy given at
  construction; \<^verbatim>\<open>clear()\<close> removes all claimed identifiers and never fails;
  \<^verbatim>\<open>claim(identifier, owner)\<close> registers the identifier as in use for that owner
  without validating it.
\<close>

record Ids =
  policy :: "nat list"
  owner_of :: "elem_id \<rightharpoonup> ref"

definition Ids_new :: "nat list \<Rightarrow> Ids" where
  "Ids_new seed = \<lparr>policy = seed, owner_of = Map.empty\<rparr>"

definition Ids_clear :: "Ids \<Rightarrow> Ids" where
  "Ids_clear r = r\<lparr>owner_of := Map.empty\<rparr>"

definition Ids_claim :: "elem_id \<Rightarrow> ref \<Rightarrow> Ids \<Rightarrow> Ids" where
  "Ids_claim i el r = r\<lparr>owner_of := (owner_of r)(i \<mapsto> el)\<rparr>"

definition claimed :: "Ids \<Rightarrow> elem_id set" where
  "claimed r = dom (owner_of r)"

text \<open>
  \<^verbatim>\<open>Modeler.prototype._createModdle\<close>: the registry attached to a fresh document model.
  The document model itself comes from \<^verbatim>\<open>Viewer.prototype._createModdle\<close>; only the
  attached registry is of interest here.
\<close>

definition createModdle_ids :: Ids where
  "createModdle_ids = Ids_new [32, 36, 1]"

subsection \<open>Objects\<close>

text \<open>
  A Decision is read and written only through its \<^verbatim>\<open>extensionElements\<close> field, which is
  either a reference to a container or \<^verbatim>\<open>undefined\<close> (\<open>None\<close>). A container has a
  \<^verbatim>\<open>$parent\<close> and a \<^verbatim>\<open>values\<close> array; either may be \<^verbatim>\<open>undefined\<close>. A bounds record
  is referenced only from the routine that creates it and from the array it is pushed
  to, so it is kept as a value. Coordinates and sizes are only copied, never computed
  with, and are integers here.
\<close>

record Bounds =
  bounds_parent :: "ref option"
  bounds_x :: int
  bounds_y :: int
  bounds_width :: int
  bounds_height :: int

record Decision =
  extensionElements :: "ref option"

record ExtensionElements =
  ee_parent :: "ref option"
  ee_values :: "Bounds list option"

record object_graph =
  decisions :: "ref \<Rightarrow> Decision"
  containers :: "ref \<Rightarrow> ExtensionElements"

record Shape =
  shape_type :: string
  businessObject :: ref
  shape_x :: int
  shape_y :: int
  shape_width :: int
  shape_height :: int

record ShapeAttrs =
  attrs_type :: string
  attrs_businessObject :: ref

record BoundsAttrs =
  attrs_x :: int
  attrs_y :: int
  attrs_width :: int
  attrs_height :: int

text \<open>The payload of \<^verbatim>\<open>eventBus.fire(name, { element: ..., di: ... })\<close>.\<close>

record Notification =
  event_name :: string
  element :: Shape
  di :: "ref option"

text \<open>
  The mutations and collaborator calls of the synchronisation routine, in the order in
  which they are executed. \<open>ShapeAdded\<close> keeps the object graph as it is at the
  moment \<^verbatim>\<open>canvas.addShape\<close> is called: this is what a listener of the insertion sees.
\<close>

datatype effect =
    ContainerParented ref ref
  | BoundsParented "ref option"
  | BoundsPushed ref Bounds
  | ShapeAdded Shape object_graph
  | Fired Notification

datatype js_error = TypeError

text \<open>
  A handler either completes (\<open>Inr\<close>, with the state it leaves) or throws
  (\<open>Inl\<close>, with the exception and the state at the throw: what was mutated before
  the exception stays mutated).
\<close>

subsection \<open>The modeler's state\<close>

text \<open>
  \<open>moddle\<close> is \<^verbatim>\<open>this.moddle\<close>; \<open>ids\<close> gives the registry attached to each document
  model (\<^verbatim>\<open>moddle.ids\<close>); \<open>canvas\<close> holds the shapes inserted so far and \<open>fired\<close> the
  notifications emitted so far, oldest first.
\<close>

record modeler =
  moddle :: ref
  ids :: "ref \<Rightarrow> Ids"
  objects :: object_graph
  canvas :: "Shape list"
  fired :: "Notification list"
  trace :: "effect list"

subsection \<open>Events\<close>

text \<open>
  The parse-complete event \<^verbatim>\<open>{ error?, definitions, context }\<close>. The \<^verbatim>\<open>error\<close> field
  holds an error object (always truthy) or is absent. \<^verbatim>\<open>context.elementsById\<close> is a
  plain object; \<^verbatim>\<open>for (id in ...)\<close> visits its keys one by one, so it is an association
  list of identifier and element.
\<close>

datatype parse_error = ParseError string

record ParseContext =
  elementsById :: "(elem_id \<times> ref) list"

record Definitions =
  definitions_model :: ref

record ParseEvent =
  event_error :: "parse_error option"
  event_definitions :: Definitions
  event_context :: ParseContext

text \<open>The view-switch event \<^verbatim>\<open>{ decision, fromTable }\<close>.\<close>

record ViewSwitch =
  decision :: ref
  fromTable :: bool

text \<open>
  The events as the event bus delivers them. A payload is a JavaScript object, and each
  field that a handler reads may be missing from it (\<^verbatim>\<open>undefined\<close>, \<open>None\<close>); a
  missing \<^verbatim>\<open>fromTable\<close> is falsy. The document-destroy event has no payload.
\<close>

record ParsePayload =
  payload_error :: "parse_error option"
  payload_definitions :: "Definitions option"
  payload_context :: "ParseContext option"

record SwitchPayload =
  payload_decision :: "ref option"
  payload_fromTable :: bool

datatype event =
    ImportParseComplete ParsePayload
  | TableDestroy
  | ViewSwitched SwitchPayload

subsection \<open>Identifier collection\<close>

text \<open>The loop \<^verbatim>\<open>for (id in context.elementsById) ids.claim(id, context.elementsById[id])\<close>.\<close>

fun claim_each :: "(elem_id \<times> ref) list \<Rightarrow> Ids \<Rightarrow> Ids" where
  "claim_each [] r = r"
| "claim_each ((i, el) # rest) r = claim_each rest (Ids_claim i el r)"

text \<open>
  \<^verbatim>\<open>Modeler.prototype._collectIds\<close>: the registry is the one of the document model that
  produced the definitions (\<^verbatim>\<open>definitions.$model.ids\<close>).
\<close>

definition collectIds :: "Definitions \<Rightarrow> ParseContext \<Rightarrow> modeler \<Rightarrow> modeler" where
  "collectIds defs ctx m =
     (let mo = definitions_model defs;
          r = Ids_clear (ids m mo)
      in m\<lparr>ids := (ids m)(mo := claim_each (elementsById ctx) r)\<rparr>)"

text \<open>The handler of \<^verbatim>\<open>import.parse.complete\<close>.\<close>

definition on_parse_complete :: "ParseEvent \<Rightarrow> modeler \<Rightarrow> modeler" where
  "on_parse_complete ev m =
     (if event_error ev = None
      then collectIds (event_definitions ev) (event_context ev) m
      else m)"

text \<open>The handler of \<^verbatim>\<open>table.destroy\<close>: \<^verbatim>\<open>this.moddle.ids.clear()\<close>.\<close>

definition on_table_destroy :: "modeler \<Rightarrow> modeler" where
  "on_table_destroy m = m\<lparr>ids := (ids m)(moddle m := Ids_clear (ids m (moddle m)))\<rparr>"

subsection \<open>Collaborators of the synchronisation routine\<close>

text \<open>
  \<^verbatim>\<open>elementFactory.createShape\<close> is not part of \<^verbatim>\<open>Modeler.js\<close>. It receives a reference
  to the Decision (\<^verbatim>\<open>businessObject: decision\<close>), so it can read and write the object
  graph; it is a parameter of the routine: given the attributes and the graph, it
  returns the shape and the graph it leaves.
\<close>

type_synonym element_factory = "ShapeAttrs \<Rightarrow> object_graph \<Rightarrow> Shape \<times> object_graph"

text \<open>
  Modelled from the spec: \<^verbatim>\<open>elementFactory.createShape\<close> is not part of
  \<^verbatim>\<open>Modeler.js\<close>. Section 6 gives \<^verbatim>\<open>createShape({ type, businessObject }) -> DiagramShape\<close>
  and section 3 describes the shape: a position, a size and a back-reference to the
  business object. Section 4.3 has the routine parent the Decision's container (step 4)
  right after the shape is created (step 2), for a Decision that had none (step 1), and
  \<^verbatim>\<open>createDecisionDi\<close> reads \<^verbatim>\<open>decision.extensionElements\<close> with nothing but the two
  factory calls since the guard found it missing: the factory is what gives a business
  object without a container a new one, with an empty value array and no \<^verbatim>\<open>$parent\<close>
  yet. \<open>c\<close> is the reference of the new container, \<open>w\<close> and \<open>h\<close> the natural size
  of the shape.
\<close>

definition createShape_attaching :: "ref \<Rightarrow> int \<Rightarrow> int \<Rightarrow> element_factory" where
  "createShape_attaching c w h a g =
     (let d = attrs_businessObject a;
          g' = (if extensionElements (decisions g d) = None
                then g\<lparr>decisions := (decisions g)(d := (decisions g d)\<lparr>extensionElements := Some c\<rparr>),
                       containers := (containers g)(c := \<lparr>ee_parent = None, ee_values = Some []\<rparr>)\<rparr>
                else g)
      in (\<lparr>shape_type = attrs_type a, businessObject = attrs_businessObject a,
           shape_x = 0, shape_y = 0, shape_width = w, shape_height = h\<rparr>, g'))"

text \<open>
  Modelled from the spec: \<^verbatim>\<open>drdFactory.createDiBounds\<close> is not part of \<^verbatim>\<open>Modeler.js\<close>.
  Section 6 gives \<^verbatim>\<open>createDiBounds({x, y, width, height}) -> DiagramInterchangeBounds\<close>,
  and section 3 describes the result as a geometry record (x, y, width, height). It
  receives four numbers and no reference into the object graph; the fresh record has
  no \<^verbatim>\<open>$parent\<close> yet.
\<close>

definition createDiBounds :: "BoundsAttrs \<Rightarrow> Bounds" where
  "createDiBounds a =
     \<lparr>bounds_parent = None, bounds_x = attrs_x a, bounds_y = attrs_y a,
      bounds_width = attrs_width a, bounds_height = attrs_height a\<rparr>"

text \<open>
  Modelled from the spec: \<^verbatim>\<open>canvas.addShape\<close> is not part of \<^verbatim>\<open>Modeler.js\<close>. Section 6
  gives \<^verbatim>\<open>addShape(DiagramShape) -> void\<close>, the insertion of a shape into the canvas's
  shape collection.
\<close>

definition canvas_addShape :: "Shape \<Rightarrow> modeler \<Rightarrow> modeler" where
  "canvas_addShape s m =
     m\<lparr>canvas := canvas m @ [s], trace := trace m @ [ShapeAdded s (objects m)]\<rparr>"

text \<open>
  Modelled from the spec: \<^verbatim>\<open>eventBus.fire\<close> is not part of \<^verbatim>\<open>Modeler.js\<close>. Section 6
  gives \<^verbatim>\<open>fire(eventName, payload) -> void\<close>, the emission of a notification.
\<close>

definition eventBus_fire :: "Notification \<Rightarrow> modeler \<Rightarrow> modeler" where
  "eventBus_fire n m = m\<lparr>fired := fired m @ [n], trace := trace m @ [Fired n]\<rparr>"

subsection \<open>The synchronisation routine\<close>

type_synonym outcome = "(js_error \<times> modeler) + modeler"

text \<open>
  \<^verbatim>\<open>decision.extensionElements.$parent = decision\<close>: writing a property of
  \<^verbatim>\<open>undefined\<close> throws a TypeError.
\<close>

definition set_container_parent :: "ref \<Rightarrow> modeler \<Rightarrow> outcome" where
  "set_container_parent d m =
     (case extensionElements (decisions (objects m) d) of
        None \<Rightarrow> Inl (TypeError, m)
      | Some c \<Rightarrow>
          Inr (m\<lparr>objects := (objects m)\<lparr>containers :=
                    (containers (objects m))
                      (c := (containers (objects m) c)\<lparr>ee_parent := Some d\<rparr>)\<rparr>,
                 trace := trace m @ [ContainerParented c d]\<rparr>))"

text \<open>\<^verbatim>\<open>bounds.$parent = decision.extensionElements\<close>.\<close>

definition set_bounds_parent :: "ref \<Rightarrow> Bounds \<Rightarrow> modeler \<Rightarrow> Bounds \<times> modeler" where
  "set_bounds_parent d b m =
     (let p = extensionElements (decisions (objects m) d)
      in (b\<lparr>bounds_parent := p\<rparr>, m\<lparr>trace := trace m @ [BoundsParented p]\<rparr>))"

text \<open>
  \<^verbatim>\<open>decision.extensionElements.values.push(bounds)\<close>: reading \<^verbatim>\<open>values\<close> of
  \<^verbatim>\<open>undefined\<close>, or \<^verbatim>\<open>push\<close> of an absent array, throws a TypeError.
\<close>

definition push_bounds :: "ref \<Rightarrow> Bounds \<Rightarrow> modeler \<Rightarrow> outcome" where
  "push_bounds d b m =
     (case extensionElements (decisions (objects m) d) of
        None \<Rightarrow> Inl (TypeError, m)
      | Some c \<Rightarrow>
          (case ee_values (containers (objects m) c) of
             None \<Rightarrow> Inl (TypeError, m)
           | Some vs \<Rightarrow>
               Inr (m\<lparr>objects := (objects m)\<lparr>containers :=
                         (containers (objects m))
                           (c := (containers (objects m) c)\<lparr>ee_values := Some (vs @ [b])\<rparr>)\<rparr>,
                      trace := trace m @ [BoundsPushed c b]\<rparr>)))"

text \<open>\<^verbatim>\<open>Modeler.prototype.createDecisionDi\<close>, statement by statement.\<close>

definition createDecisionDi :: "element_factory \<Rightarrow> ref \<Rightarrow> modeler \<Rightarrow> outcome" where
  "createDecisionDi createShape d m =
     (let (shape0, g) =
            createShape \<lparr>attrs_type = ''dmn:Decision'', attrs_businessObject = d\<rparr> (objects m);
          m1 = m\<lparr>objects := g\<rparr>;
          decisionShape = shape0\<lparr>shape_x := 200, shape_y := 200\<rparr>;
          bounds = createDiBounds
                     \<lparr>attrs_x = 200, attrs_y = 200,
                      attrs_width = shape_width decisionShape,
                      attrs_height = shape_height decisionShape\<rparr>
      in case set_container_parent d m1 of
           Inl e \<Rightarrow> Inl e
         | Inr m2 \<Rightarrow>
             (let (bounds', m3) = set_bounds_parent d bounds m2
              in case push_bounds d bounds' m3 of
                   Inl e \<Rightarrow> Inl e
                 | Inr m4 \<Rightarrow>
                     (let m5 = canvas_addShape decisionShape m4
                      in Inr (eventBus_fire
                                \<lparr>event_name = ''drdElement.added'', element = decisionShape,
                                 di = extensionElements (decisions (objects m5) d)\<rparr>
                                m5))))"

text \<open>The handler of \<^verbatim>\<open>view.switch\<close>.\<close>

definition on_view_switch :: "element_factory \<Rightarrow> ViewSwitch \<Rightarrow> modeler \<Rightarrow> outcome" where
  "on_view_switch createShape ctx m =
     (let d = decision ctx
      in if fromTable ctx \<and> extensionElements (decisions (objects m) d) = None
         then createDecisionDi createShape d m
         else Inr m)"

subsection \<open>The handlers on delivered events\<close>

text \<open>
  The handler of \<^verbatim>\<open>import.parse.complete\<close> on a payload. Without an error it calls
  \<^verbatim>\<open>_collectIds(event.definitions, event.context)\<close>, which reads
  \<^verbatim>\<open>definitions.$model\<close> first, clears the registry, and then reads
  \<^verbatim>\<open>context.elementsById\<close>: reading a property of \<^verbatim>\<open>undefined\<close> throws a TypeError,
  the second time with the registry already cleared.
\<close>

definition parse_complete_handler :: "ParsePayload \<Rightarrow> modeler \<Rightarrow> outcome" where
  "parse_complete_handler p m =
     (if payload_error p = None
      then (case payload_definitions p of
              None \<Rightarrow> Inl (TypeError, m)
            | Some defs \<Rightarrow>
                (let mo = definitions_model defs;
                     m1 = m\<lparr>ids := (ids m)(mo := Ids_clear (ids m mo))\<rparr>
                 in case payload_context p of
                      None \<Rightarrow> Inl (TypeError, m1)
                    | Some ctx \<Rightarrow>
                        Inr (m1\<lparr>ids := (ids m1)
                                  (mo := claim_each (elementsById ctx) (ids m1 mo))\<rparr>)))
      else Inr m)"

text \<open>
  The handler of \<^verbatim>\<open>view.switch\<close> on a payload:
  \<^verbatim>\<open>context.fromTable && !decision.extensionElements\<close> reads the Decision only when
  \<^verbatim>\<open>fromTable\<close> is truthy, and reading \<^verbatim>\<open>extensionElements\<close> of \<^verbatim>\<open>undefined\<close> throws
  a TypeError.
\<close>

definition view_switch_handler :: "element_factory \<Rightarrow> SwitchPayload \<Rightarrow> modeler \<Rightarrow> outcome" where
  "view_switch_handler createShape p m =
     (if payload_fromTable p
      then (case payload_decision p of
              None \<Rightarrow> Inl (TypeError, m)
            | Some d \<Rightarrow>
                if extensionElements (decisions (objects m) d) = None
                then createDecisionDi createShape d m
                else Inr m)
      else Inr m)"

text \<open>
  The three handlers registered by the constructor, by event. The handler of
  \<^verbatim>\<open>table.destroy\<close> reads no field of an event, only \<^verbatim>\<open>this.moddle.ids\<close>, which
  \<^verbatim>\<open>_createModdle\<close> attaches to every document model.
\<close>

definition emit :: "element_factory \<Rightarrow> event \<Rightarrow> modeler \<Rightarrow> outcome" where
  "emit createShape ev m =
     (case ev of
        ImportParseComplete p \<Rightarrow> parse_complete_handler p m
      | TableDestroy \<Rightarrow> Inr (on_table_destroy m)
      | ViewSwitched p \<Rightarrow> view_switch_handler createShape p m)"

subsection \<open>The constructor's options\<close>

text \<open>
  An options object is a finite map from property names to values; the argument of the
  constructor may be missing (\<open>None\<close>). \<^verbatim>\<open>assign(object, source)\<close> copies the own
  properties of the source over the object and skips a missing source.
\<close>

datatype js_value = Undefined | Boolean bool | Number int | String string | Component string

type_synonym options = "string \<rightharpoonup> js_value"

definition TableModeler :: js_value where
  "TableModeler = Component ''./table/Modeler''"

definition assign :: "options \<Rightarrow> options option \<Rightarrow> options" where
  "assign object source = (case source of None \<Rightarrow> object | Some s \<Rightarrow> object ++ s)"

text \<open>The options which \<^verbatim>\<open>Modeler\<close> passes to \<^verbatim>\<open>Viewer.call(this, options)\<close>.\<close>

definition Modeler_options :: "options option \<Rightarrow> options" where
  "Modeler_options opts =
     (let options = assign [''editingAllowed'' \<mapsto> Boolean True] opts
      in options(''editor'' \<mapsto> TableModeler))"

subsection \<open>Concrete states and events\<close>

definition empty_graph :: object_graph where
  "empty_graph =
     \<lparr>decisions = (\<lambda>_. \<lparr>extensionElements = None\<rparr>),
      containers = (\<lambda>_. \<lparr>ee_parent = None, ee_values = None\<rparr>)\<rparr>"

definition fresh_modeler :: modeler where
  "fresh_modeler =
     \<lparr>moddle = 0, ids = (\<lambda>_. createModdle_ids), objects = empty_graph,
      canvas = [], fired = [], trace = []\<rparr>"

text \<open>A modeler whose registry holds the identifiers A and B of an earlier document.\<close>

definition modeler_AB :: modeler where
  "modeler_AB =
     fresh_modeler\<lparr>ids := (\<lambda>_. Ids_claim ''B'' 2 (Ids_claim ''A'' 1 createModdle_ids))\<rparr>"

text \<open>A successful parse of a document with the elements \<^verbatim>\<open>decision\<close> and \<^verbatim>\<open>input1\<close>.\<close>

definition parsed_ok :: ParseEvent where
  "parsed_ok =
     \<lparr>event_error = None, event_definitions = \<lparr>definitions_model = 0\<rparr>,
      event_context = \<lparr>elementsById = [(''decision'', 3), (''input1'', 4)]\<rparr>\<rparr>"

definition parsed_failed :: ParseEvent where
  "parsed_failed = parsed_ok\<lparr>event_error := Some (ParseError ''unparsable content'')\<rparr>"

text \<open>A switch to the diagram coming from the table view, and one that does not.\<close>

definition switch_from_table :: ViewSwitch where
  "switch_from_table = \<lparr>decision = 0, fromTable = True\<rparr>"

definition switch_from_diagram :: ViewSwitch where
  "switch_from_diagram = \<lparr>decision = 0, fromTable = False\<rparr>"

text \<open>The same two switches as delivered, and one that names no Decision.\<close>

definition delivered_from_table :: SwitchPayload where
  "delivered_from_table = \<lparr>payload_decision = Some 0, payload_fromTable = True\<rparr>"

definition delivered_from_diagram :: SwitchPayload where
  "delivered_from_diagram = \<lparr>payload_decision = Some 0, payload_fromTable = False\<rparr>"

definition delivered_without_decision :: SwitchPayload where
  "delivered_without_decision = \<lparr>payload_decision = None, payload_fromTable = True\<rparr>"

text \<open>The two parse-complete events above as delivered, and one without definitions.\<close>

definition delivered_ok :: ParsePayload where
  "delivered_ok =
     \<lparr>payload_error = None, payload_definitions = Some (event_definitions parsed_ok),
      payload_context = Some (event_context parsed_ok)\<rparr>"

definition delivered_failed :: ParsePayload where
  "delivered_failed =
     \<lparr>payload_error = Some (ParseError ''unparsable content''), payload_definitions = None,
      payload_context = None\<rparr>"

definition delivered_without_definitions :: ParsePayload where
  "delivered_without_definitions =
     \<lparr>payload_error = None, payload_definitions = None, payload_context = None\<rparr>"

text \<open>The shape which the element factory builds for Decision 0 with size 180 x 80.\<close>

definition built_shape :: Shape where
  "built_shape =
     \<lparr>shape_type = ''dmn:Decision'', businessObject = 0, shape_x = 0, shape_y = 0,
      shape_width = 180, shape_height = 80\<rparr>"

text \<open>The empty graph once Decision 0 has been given the empty container 2.\<close>

definition attached_graph :: object_graph where
  "attached_graph =
     empty_graph
       \<lparr>decisions := (decisions empty_graph)
          (0 := (decisions empty_graph 0)\<lparr>extensionElements := Some 2\<rparr>),
        containers := (containers empty_graph)
          (2 := \<lparr>ee_parent = None, ee_values = Some []\<rparr>)\<rparr>"

text \<open>A modeler whose Decision 0 is already on the canvas, with its bounds in container 2.\<close>

definition modeler_with_di :: modeler where
  "modeler_with_di =
     fresh_modeler
       \<lparr>objects :=
          \<lparr>decisions = (decisions empty_graph)(0 := \<lparr>extensionElements = Some 2\<rparr>),
           containers = (containers empty_graph)
             (2 := \<lparr>ee_parent = Some 0,
                     ee_values = Some [\<lparr>bounds_parent = Some 2, bounds_x = 200, bounds_y = 200,
                                        bounds_width = 180, bounds_height = 80\<rparr>]\<rparr>)\<rparr>,
        canvas := [built_shape\<lparr>shape_x := 200, shape_y := 200\<rparr>]\<rparr>"

text \<open>Options of a caller who sets an editor, forbids editing and gives a width.\<close>

definition caller_options :: options where
  "caller_options =
     [''editor'' \<mapsto> String ''custom'', ''editingAllowed'' \<mapsto> Boolean False,
      ''width'' \<mapsto> Number 100]"

section \<open>Properties of the registry\<close>

lemma claimed_clear: "claimed (Ids_clear r) = {}"
  by (simp add: claimed_def Ids_clear_def)

lemma claimed_claim: "claimed (Ids_claim i el r) = insert i (claimed r)"
  by (simp add: claimed_def Ids_claim_def)

lemma claimed_claim_each: "claimed (claim_each xs r) = claimed r \<union> fst ` set xs"
  by (induction xs r rule: claim_each.induct) (auto simp: claimed_claim)

lemma claimed_createModdle_ids: "claimed createModdle_ids = {}"
  by (simp add: claimed_def createModdle_ids_def Ids_new_def)

lemma claimed_modeler_AB: "claimed (ids modeler_AB mo) = {''A'', ''B''}"
  by (simp add: modeler_AB_def fresh_modeler_def claimed_claim claimed_createModdle_ids
      insert_commute)

text \<open>
  C3. After the parse-complete handler has run on an event without an error, the
  claimed set of the registry of the document model that produced the definitions is
  exactly the key set of \<^verbatim>\<open>context.elementsById\<close>: whatever was claimed before is gone,
  and every key of the index is claimed.
\<close>

theorem parse_complete_mirrors_index:
  "event_error ev = None \<Longrightarrow>
   claimed (ids (on_parse_complete ev m) (definitions_model (event_definitions ev)))
     = fst ` set (elementsById (event_context ev))"
  by (simp add: on_parse_complete_def collectIds_def Let_def claimed_claim_each claimed_clear)

theorem parse_complete_mirrors_index_witness:
  "event_error parsed_ok = None \<and>
   claimed (ids modeler_AB 0) = {''A'', ''B''} \<and>
   claimed (ids (on_parse_complete parsed_ok modeler_AB) 0) = {''decision'', ''input1''}"
proof -
  have h: "event_error parsed_ok = None"
    by (simp add: parsed_ok_def)
  have "claimed (ids (on_parse_complete parsed_ok modeler_AB) 0) = {''decision'', ''input1''}"
    using parse_complete_mirrors_index [OF h, of modeler_AB] by (simp add: parsed_ok_def)
  with h claimed_modeler_AB show ?thesis by simp
qed

text \<open>
  C4. The parse-complete handler leaves the whole state as it is when the event carries
  an error; in particular every registry claims after the handler exactly what it
  claimed before (a registry holding A and B still holds exactly A and B).
\<close>

theorem failed_parse_keeps_registry:
  "event_error ev = Some e \<Longrightarrow>
   on_parse_complete ev m = m \<and>
   claimed (ids (on_parse_complete ev m) mo) = claimed (ids m mo)"
  by (simp add: on_parse_complete_def)

theorem failed_parse_keeps_registry_witness:
  "event_error parsed_failed = Some (ParseError ''unparsable content'') \<and>
   claimed (ids modeler_AB 0) = {''A'', ''B''} \<and>
   claimed (ids (on_parse_complete parsed_failed modeler_AB) 0) = {''A'', ''B''}"
proof -
  have h: "event_error parsed_failed = Some (ParseError ''unparsable content'')"
    by (simp add: parsed_failed_def)
  have "claimed (ids (on_parse_complete parsed_failed modeler_AB) 0) = claimed (ids modeler_AB 0)"
    using failed_parse_keeps_registry [OF h, of modeler_AB 0] by simp
  with h claimed_modeler_AB show ?thesis by simp
qed

text \<open>
  C5. Whatever the registry of \<^verbatim>\<open>this.moddle\<close> claims, after the document-destroy
  handler it claims nothing: the handler clears it without any condition.
\<close>

theorem destroy_clears_registry:
  "claimed (ids (on_table_destroy m) (moddle m)) = {}"
  by (simp add: on_table_destroy_def claimed_clear)

section \<open>Properties of the synchronisation routine\<close>

lemmas routine_defs =
  createDecisionDi_def set_container_parent_def set_bounds_parent_def push_bounds_def
  canvas_addShape_def eventBus_fire_def createDiBounds_def

text \<open>The three ways in which the routine can end, by what the element factory leaves.\<close>

lemma createDecisionDi_no_container:
  assumes "createShape \<lparr>attrs_type = ''dmn:Decision'', attrs_businessObject = d\<rparr> (objects m) = (s, g)"
    and "extensionElements (decisions g d) = None"
  shows "createDecisionDi createShape d m = Inl (TypeError, m\<lparr>objects := g\<rparr>)"
  using assms by (simp add: routine_defs Let_def)

lemma createDecisionDi_no_values:
  assumes "createShape \<lparr>attrs_type = ''dmn:Decision'', attrs_businessObject = d\<rparr> (objects m) = (s, g)"
    and "extensionElements (decisions g d) = Some c"
    and "ee_values (containers g c) = None"
  shows "createDecisionDi createShape d m =
     Inl (TypeError,
          m\<lparr>objects := g\<lparr>containers := (containers g)
                             (c := (containers g c)\<lparr>ee_parent := Some d\<rparr>)\<rparr>,
            trace := trace m @ [ContainerParented c d, BoundsParented (Some c)]\<rparr>)"
  using assms by (simp add: routine_defs Let_def)

lemma createDecisionDi_completes:
  assumes "createShape \<lparr>attrs_type = ''dmn:Decision'', attrs_businessObject = d\<rparr> (objects m) = (s, g)"
    and "extensionElements (decisions g d) = Some c"
    and "ee_values (containers g c) = Some vs"
  shows "createDecisionDi createShape d m =
     Inr (let sh = s\<lparr>shape_x := 200, shape_y := 200\<rparr>;
              b = \<lparr>bounds_parent = Some c, bounds_x = 200, bounds_y = 200,
                   bounds_width = shape_width s, bounds_height = shape_height s\<rparr>;
              g' = g\<lparr>containers := (containers g)
                       (c := (containers g c)\<lparr>ee_parent := Some d, ee_values := Some (vs @ [b])\<rparr>)\<rparr>;
              n = \<lparr>event_name = ''drdElement.added'', element = sh, di = Some c\<rparr>
          in m\<lparr>objects := g', canvas := canvas m @ [sh], fired := fired m @ [n],
               trace := trace m @ [ContainerParented c d, BoundsParented (Some c),
                                   BoundsPushed c b, ShapeAdded sh g', Fired n]\<rparr>)"
  using assms by (simp add: routine_defs Let_def)

lemma createDecisionDi_Inr_D:
  assumes "createDecisionDi createShape d m = Inr m'"
  obtains s g c vs where
    "createShape \<lparr>attrs_type = ''dmn:Decision'', attrs_businessObject = d\<rparr> (objects m) = (s, g)"
    "extensionElements (decisions g d) = Some c"
    "ee_values (containers g c) = Some vs"
proof -
  obtain s g where sg:
    "createShape \<lparr>attrs_type = ''dmn:Decision'', attrs_businessObject = d\<rparr> (objects m) = (s, g)"
    by (cases "createShape \<lparr>attrs_type = ''dmn:Decision'', attrs_businessObject = d\<rparr> (objects m)")
  show thesis
  proof (cases "extensionElements (decisions g d)")
    case None
    with createDecisionDi_no_container [where createShape = createShape, OF sg] assms
    show thesis by simp
  next
    case (Some c)
    show thesis
    proof (cases "ee_values (containers g c)")
      case None
      with createDecisionDi_no_values [where createShape = createShape, OF sg Some] assms
      show thesis by simp
    next
      case (Some vs)
      with sg \<open>extensionElements (decisions g d) = Some c\<close> that show thesis by blast
    qed
  qed
qed

text \<open>The concrete collaborators on the concrete states.\<close>

lemma fresh_decision_bare: "extensionElements (decisions (objects fresh_modeler) d) = None"
  by (simp add: fresh_modeler_def empty_graph_def)

lemma attaching_builds:
  assumes "extensionElements (decisions g d) = None"
  shows "createShape_attaching c w h \<lparr>attrs_type = ''dmn:Decision'', attrs_businessObject = d\<rparr> g =
     (\<lparr>shape_type = ''dmn:Decision'', businessObject = d, shape_x = 0, shape_y = 0,
       shape_width = w, shape_height = h\<rparr>,
      g\<lparr>decisions := (decisions g)(d := (decisions g d)\<lparr>extensionElements := Some c\<rparr>),
        containers := (containers g)(c := \<lparr>ee_parent = None, ee_values = Some []\<rparr>)\<rparr>)"
  using assms by (simp add: createShape_attaching_def Let_def)

lemma attaching_completes:
  assumes "extensionElements (decisions (objects m) d) = None"
  shows "createDecisionDi (createShape_attaching c w h) d m =
     Inr (let sh = \<lparr>shape_type = ''dmn:Decision'', businessObject = d, shape_x = 200,
                    shape_y = 200, shape_width = w, shape_height = h\<rparr>;
              b = \<lparr>bounds_parent = Some c, bounds_x = 200, bounds_y = 200,
                   bounds_width = w, bounds_height = h\<rparr>;
              g' = (objects m)
                     \<lparr>decisions := (decisions (objects m))
                        (d := (decisions (objects m) d)\<lparr>extensionElements := Some c\<rparr>),
                      containers := (containers (objects m))
                        (c := \<lparr>ee_parent = Some d, ee_values = Some [b]\<rparr>)\<rparr>;
              n = \<lparr>event_name = ''drdElement.added'', element = sh, di = Some c\<rparr>
          in m\<lparr>objects := g', canvas := canvas m @ [sh], fired := fired m @ [n],
               trace := trace m @ [ContainerParented c d, BoundsParented (Some c),
                                   BoundsPushed c b, ShapeAdded sh g', Fired n]\<rparr>)"
proof -
  let ?g = "(objects m)
              \<lparr>decisions := (decisions (objects m))
                 (d := (decisions (objects m) d)\<lparr>extensionElements := Some c\<rparr>),
               containers := (containers (objects m))
                 (c := \<lparr>ee_parent = None, ee_values = Some []\<rparr>)\<rparr>"
  have a: "extensionElements (decisions ?g d) = Some c" by simp
  have b: "ee_values (containers ?g c) = Some []" by simp
  show ?thesis
    using createDecisionDi_completes [where createShape = "createShape_attaching c w h",
        OF attaching_builds [OF assms] a b]
    by (simp add: Let_def)
qed

text \<open>The handlers on a payload that has every field are the handlers above.\<close>

lemma parse_complete_handler_full:
  "parse_complete_handler
     \<lparr>payload_error = e, payload_definitions = Some defs, payload_context = Some ctx\<rparr> m =
   Inr (on_parse_complete \<lparr>event_error = e, event_definitions = defs, event_context = ctx\<rparr> m)"
  by (simp add: parse_complete_handler_def on_parse_complete_def collectIds_def Let_def)

lemma view_switch_handler_full:
  "view_switch_handler createShape \<lparr>payload_decision = Some d, payload_fromTable = f\<rparr> m =
   on_view_switch createShape \<lparr>decision = d, fromTable = f\<rparr> m"
  by (simp add: view_switch_handler_def on_view_switch_def)

lemma attaching_on_fresh:
  "createShape_attaching 2 180 80 \<lparr>attrs_type = ''dmn:Decision'', attrs_businessObject = 0\<rparr>
     (objects fresh_modeler) = (built_shape, attached_graph)"
  using attaching_builds [where g = "objects fresh_modeler" and d = 0 and c = 2 and w = 180
      and h = 80, OF fresh_decision_bare]
  by (simp add: built_shape_def attached_graph_def fresh_modeler_def)

lemma attached_graph_container: "extensionElements (decisions attached_graph 0) = Some 2"
  by (simp add: attached_graph_def)

lemma attached_graph_values: "ee_values (containers attached_graph 2) = Some []"
  by (simp add: attached_graph_def)

lemma attaching_run:
  "\<exists>m'. createDecisionDi (createShape_attaching 2 180 80) 0 fresh_modeler = Inr m' \<and>
         extensionElements (decisions (objects m') 0) = Some 2"
  using createDecisionDi_completes [where createShape = "createShape_attaching 2 180 80",
      OF attaching_on_fresh attached_graph_container attached_graph_values]
  by (simp add: Let_def attached_graph_def)

text \<open>
  C1. For every Decision that has no extension-elements container, the view-switch
  handler on an event with \<^verbatim>\<open>fromTable\<close> true completes and
  \<^item> appends exactly one shape to the canvas: the Decision's shape at (200, 200);
  \<^item> leaves the Decision with a container that is parented under the Decision and
    whose value array holds exactly one bounds record, parented under the container;
  \<^item> emits exactly one notification \<^verbatim>\<open>drdElement.added\<close>, whose \<^verbatim>\<open>element\<close> is that
    shape and whose \<^verbatim>\<open>di\<close> is that container, the DI record which holds the bounds;
  \<^item> changes no other Decision and no other container.
\<close>

theorem view_switch_materializes:
  assumes "fromTable ctx"
    and "extensionElements (decisions (objects m) (decision ctx)) = None"
  shows "\<exists>m' s b.
     on_view_switch (createShape_attaching c w h) ctx m = Inr m' \<and>
     s = \<lparr>shape_type = ''dmn:Decision'', businessObject = decision ctx, shape_x = 200,
          shape_y = 200, shape_width = w, shape_height = h\<rparr> \<and>
     canvas m' = canvas m @ [s] \<and>
     fired m' = fired m @ [\<lparr>event_name = ''drdElement.added'', element = s, di = Some c\<rparr>] \<and>
     extensionElements (decisions (objects m') (decision ctx)) = Some c \<and>
     ee_parent (containers (objects m') c) = Some (decision ctx) \<and>
     ee_values (containers (objects m') c) = Some [b] \<and>
     bounds_parent b = Some c \<and>
     (\<forall>d'. d' \<noteq> decision ctx \<longrightarrow> decisions (objects m') d' = decisions (objects m) d') \<and>
     (\<forall>c'. c' \<noteq> c \<longrightarrow> containers (objects m') c' = containers (objects m) c')"
proof -
  have "on_view_switch (createShape_attaching c w h) ctx m
          = createDecisionDi (createShape_attaching c w h) (decision ctx) m"
    using assms by (simp add: on_view_switch_def)
  then show ?thesis
    using attaching_completes [where c = c and w = w and h = h, OF assms(2)]
    by (simp add: Let_def)
qed

theorem view_switch_materializes_witness:
  "fromTable switch_from_table \<and>
   extensionElements (decisions (objects fresh_modeler) (decision switch_from_table)) = None \<and>
   (\<exists>m' b.
      on_view_switch (createShape_attaching 2 180 80) switch_from_table fresh_modeler = Inr m' \<and>
      canvas m' = [built_shape\<lparr>shape_x := 200, shape_y := 200\<rparr>] \<and>
      fired m' = [\<lparr>event_name = ''drdElement.added'',
                   element = built_shape\<lparr>shape_x := 200, shape_y := 200\<rparr>, di = Some 2\<rparr>] \<and>
      extensionElements (decisions (objects m') 0) = Some 2 \<and>
      ee_parent (containers (objects m') 2) = Some 0 \<and>
      ee_values (containers (objects m') 2) = Some [b] \<and>
      bounds_parent b = Some 2)"
proof -
  have a: "fromTable switch_from_table"
    by (simp add: switch_from_table_def)
  have b: "extensionElements (decisions (objects fresh_modeler) (decision switch_from_table)) = None"
    by (rule fresh_decision_bare)
  from view_switch_materializes [where c = 2 and w = 180 and h = 80, OF a b]
  obtain m' s b' where r:
    "on_view_switch (createShape_attaching 2 180 80) switch_from_table fresh_modeler = Inr m'"
    "s = \<lparr>shape_type = ''dmn:Decision'', businessObject = decision switch_from_table,
          shape_x = 200, shape_y = 200, shape_width = 180, shape_height = 80\<rparr>"
    "canvas m' = canvas fresh_modeler @ [s]"
    "fired m' = fired fresh_modeler @
       [\<lparr>event_name = ''drdElement.added'', element = s, di = Some 2\<rparr>]"
    "extensionElements (decisions (objects m') (decision switch_from_table)) = Some 2"
    "ee_parent (containers (objects m') 2) = Some (decision switch_from_table)"
    "ee_values (containers (objects m') 2) = Some [b']"
    "bounds_parent b' = Some 2"
    by blast
  have s: "s = built_shape\<lparr>shape_x := 200, shape_y := 200\<rparr>"
    using r(2) by (simp add: built_shape_def switch_from_table_def)
  have "canvas m' = [built_shape\<lparr>shape_x := 200, shape_y := 200\<rparr>]"
    using r(3) s by (simp add: fresh_modeler_def)
  moreover have "fired m' = [\<lparr>event_name = ''drdElement.added'',
                   element = built_shape\<lparr>shape_x := 200, shape_y := 200\<rparr>, di = Some 2\<rparr>]"
    using r(4) s by (simp add: fresh_modeler_def)
  moreover have "extensionElements (decisions (objects m') 0) = Some 2"
    using r(5) by (simp add: switch_from_table_def)
  moreover have "ee_parent (containers (objects m') 2) = Some 0"
    using r(6) by (simp add: switch_from_table_def)
  ultimately show ?thesis
    using a b r(1) r(7) r(8) by blast
qed

text \<open>
  C2 (as amended). A handler completes on every event that carries the fields it reads,
  and throws a TypeError on an event that lacks one of them:
  \<^item> the document-destroy handler always completes;
  \<^item> the parse-complete handler completes when the event has an error (it then does
    nothing) or has both its definitions and its context;
  \<^item> the view-switch handler completes when \<^verbatim>\<open>fromTable\<close> is false (it then does
    nothing) or the event names a Decision; in particular it completes for
    \<^verbatim>\<open>fromTable\<close> true and a Decision without extension-elements.
\<close>

theorem emit_completes_iff:
  "(\<exists>m'. emit (createShape_attaching c w h) ev m = Inr m') \<longleftrightarrow>
   (case ev of
      ImportParseComplete p \<Rightarrow>
        payload_error p \<noteq> None \<or> (payload_definitions p \<noteq> None \<and> payload_context p \<noteq> None)
    | TableDestroy \<Rightarrow> True
    | ViewSwitched p \<Rightarrow> \<not> payload_fromTable p \<or> payload_decision p \<noteq> None)"
proof (cases ev)
  case (ImportParseComplete p)
  then show ?thesis
    by (auto simp add: emit_def parse_complete_handler_def Let_def split: option.splits)
next
  case TableDestroy
  then show ?thesis by (simp add: emit_def)
next
  case (ViewSwitched p)
  show ?thesis
  proof (cases "payload_fromTable p")
    case False
    with ViewSwitched show ?thesis by (simp add: emit_def view_switch_handler_def)
  next
    case True
    note ft = this
    show ?thesis
    proof (cases "payload_decision p")
      case None
      with ft ViewSwitched show ?thesis by (simp add: emit_def view_switch_handler_def)
    next
      case (Some d)
      show ?thesis
      proof (cases "extensionElements (decisions (objects m) d) = None")
        case True
        from attaching_completes [where c = c and w = w and h = h, OF this] ft Some ViewSwitched True
        show ?thesis by (simp add: emit_def view_switch_handler_def)
      next
        case False
        with ft Some ViewSwitched show ?thesis by (auto simp add: emit_def view_switch_handler_def)
      qed
    qed
  qed
qed

theorem emit_completes_iff_witness:
  "(\<exists>m'. emit (createShape_attaching 2 180 80) (ViewSwitched delivered_from_table) fresh_modeler
            = Inr m') \<and>
   (\<exists>m'. emit (createShape_attaching 2 180 80) (ViewSwitched delivered_from_diagram) fresh_modeler
            = Inr m') \<and>
   (\<exists>m'. emit (createShape_attaching 2 180 80) (ImportParseComplete delivered_ok) modeler_AB
            = Inr m') \<and>
   (\<exists>m'. emit (createShape_attaching 2 180 80) (ImportParseComplete delivered_failed) modeler_AB
            = Inr m') \<and>
   (\<exists>m'. emit (createShape_attaching 2 180 80) TableDestroy modeler_AB = Inr m') \<and>
   (\<nexists>m'. emit (createShape_attaching 2 180 80) (ImportParseComplete delivered_without_definitions)
            modeler_AB = Inr m')"
proof -
  have "\<exists>m'. emit (createShape_attaching 2 180 80) (ViewSwitched delivered_from_table) fresh_modeler
            = Inr m'"
    using emit_completes_iff [where c = 2 and w = 180 and h = 80
        and ev = "ViewSwitched delivered_from_table" and m = fresh_modeler]
    by (simp add: delivered_from_table_def)
  moreover have
    "\<exists>m'. emit (createShape_attaching 2 180 80) (ViewSwitched delivered_from_diagram) fresh_modeler
            = Inr m'"
    using emit_completes_iff [where c = 2 and w = 180 and h = 80
        and ev = "ViewSwitched delivered_from_diagram" and m = fresh_modeler]
    by (simp add: delivered_from_diagram_def)
  moreover have
    "\<exists>m'. emit (createShape_attaching 2 180 80) (ImportParseComplete delivered_ok) modeler_AB
            = Inr m'"
    using emit_completes_iff [where c = 2 and w = 180 and h = 80
        and ev = "ImportParseComplete delivered_ok" and m = modeler_AB]
    by (simp add: delivered_ok_def)
  moreover have
    "\<exists>m'. emit (createShape_attaching 2 180 80) (ImportParseComplete delivered_failed) modeler_AB
            = Inr m'"
    using emit_completes_iff [where c = 2 and w = 180 and h = 80
        and ev = "ImportParseComplete delivered_failed" and m = modeler_AB]
    by (simp add: delivered_failed_def)
  moreover have "\<exists>m'. emit (createShape_attaching 2 180 80) TableDestroy modeler_AB = Inr m'"
    using emit_completes_iff [where c = 2 and w = 180 and h = 80
        and ev = TableDestroy and m = modeler_AB]
    by simp
  moreover have
    "\<nexists>m'. emit (createShape_attaching 2 180 80) (ImportParseComplete delivered_without_definitions)
            modeler_AB = Inr m'"
    using emit_completes_iff [where c = 2 and w = 180 and h = 80
        and ev = "ImportParseComplete delivered_without_definitions" and m = modeler_AB]
    by (simp add: delivered_without_definitions_def)
  ultimately show ?thesis by blast
qed

text \<open>
  C2 as stated fails: a view-switch event with \<^verbatim>\<open>fromTable\<close> true that names no
  Decision is not skipped. The guard reads \<^verbatim>\<open>extensionElements\<close> of \<^verbatim>\<open>undefined\<close>
  and the handler throws a TypeError, with the state untouched.
\<close>

theorem emit_without_decision_throws:
  "emit (createShape_attaching 2 180 80) (ViewSwitched delivered_without_decision) fresh_modeler
     = Inl (TypeError, fresh_modeler)"
  by (simp add: emit_def view_switch_handler_def delivered_without_decision_def)

text \<open>
  C6. When \<^verbatim>\<open>fromTable\<close> is false, and also when the Decision already owns an
  extension-elements container, the view-switch handler completes and leaves the whole
  state as it was: no object is mutated, the canvas and the list of notifications are
  unchanged, and the element factory is not even called.
\<close>

theorem view_switch_no_op:
  "fromTable ctx = False \<or> extensionElements (decisions (objects m) (decision ctx)) \<noteq> None \<Longrightarrow>
   on_view_switch createShape ctx m = Inr m"
  by (auto simp add: on_view_switch_def Let_def)

theorem view_switch_no_op_witness:
  "fromTable switch_from_diagram = False \<and>
   extensionElements (decisions (objects modeler_with_di) (decision switch_from_table)) = Some 2 \<and>
   on_view_switch (createShape_attaching 2 180 80) switch_from_diagram fresh_modeler
     = Inr fresh_modeler \<and>
   on_view_switch (createShape_attaching 2 180 80) switch_from_table modeler_with_di
     = Inr modeler_with_di"
proof -
  have a: "fromTable switch_from_diagram = False"
    by (simp add: switch_from_diagram_def)
  have b: "extensionElements (decisions (objects modeler_with_di) (decision switch_from_table)) = Some 2"
    by (simp add: modeler_with_di_def switch_from_table_def)
  have "on_view_switch (createShape_attaching 2 180 80) switch_from_diagram fresh_modeler
          = Inr fresh_modeler"
    using a by (intro view_switch_no_op) simp
  moreover have "on_view_switch (createShape_attaching 2 180 80) switch_from_table modeler_with_di
          = Inr modeler_with_di"
    using b by (intro view_switch_no_op) simp
  ultimately show ?thesis using a b by simp
qed

text \<open>
  C7. Whenever the routine completes, the shape it has appended to the canvas is the
  element factory's shape with its position set to (200, 200), whatever the state
  before; and the bounds record appended to the Decision's container has position
  (200, 200) and the width and height of that shape.
\<close>

theorem createDecisionDi_position:
  assumes "createDecisionDi createShape d m = Inr m'"
  shows "\<exists>c vs b.
     canvas m' = canvas m @
       [(fst (createShape \<lparr>attrs_type = ''dmn:Decision'', attrs_businessObject = d\<rparr> (objects m)))
          \<lparr>shape_x := 200, shape_y := 200\<rparr>] \<and>
     shape_x (last (canvas m')) = 200 \<and> shape_y (last (canvas m')) = 200 \<and>
     extensionElements (decisions (objects m') d) = Some c \<and>
     ee_values (containers (objects m') c) = Some (vs @ [b]) \<and>
     bounds_x b = 200 \<and> bounds_y b = 200 \<and>
     bounds_width b = shape_width (last (canvas m')) \<and>
     bounds_height b = shape_height (last (canvas m'))"
proof -
  from assms obtain s g c vs where h:
    "createShape \<lparr>attrs_type = ''dmn:Decision'', attrs_businessObject = d\<rparr> (objects m) = (s, g)"
    "extensionElements (decisions g d) = Some c"
    "ee_values (containers g c) = Some vs"
    by (rule createDecisionDi_Inr_D)
  from createDecisionDi_completes [where createShape = createShape, OF h] assms h
  show ?thesis by (auto simp add: Let_def)
qed

theorem createDecisionDi_position_witness:
  "\<exists>m' vs b.
     createDecisionDi (createShape_attaching 2 180 80) 0 fresh_modeler = Inr m' \<and>
     shape_x (last (canvas m')) = 200 \<and> shape_y (last (canvas m')) = 200 \<and>
     ee_values (containers (objects m') 2) = Some (vs @ [b]) \<and>
     bounds_x b = 200 \<and> bounds_y b = 200 \<and> bounds_width b = 180 \<and> bounds_height b = 80"
proof -
  from attaching_run obtain m' where r:
    "createDecisionDi (createShape_attaching 2 180 80) 0 fresh_modeler = Inr m'"
    "extensionElements (decisions (objects m') 0) = Some 2"
    by blast
  from createDecisionDi_position [OF r(1)] r(2) obtain vs b where f:
    "canvas m' = canvas fresh_modeler @
       [(fst (createShape_attaching 2 180 80
               \<lparr>attrs_type = ''dmn:Decision'', attrs_businessObject = 0\<rparr> (objects fresh_modeler)))
          \<lparr>shape_x := 200, shape_y := 200\<rparr>]"
    "shape_x (last (canvas m')) = 200" "shape_y (last (canvas m')) = 200"
    "ee_values (containers (objects m') 2) = Some (vs @ [b])"
    "bounds_x b = 200" "bounds_y b = 200"
    "bounds_width b = shape_width (last (canvas m'))"
    "bounds_height b = shape_height (last (canvas m'))"
    by auto
  have "shape_width (last (canvas m')) = 180" "shape_height (last (canvas m')) = 80"
    using f(1) by (simp_all add: attaching_on_fresh built_shape_def)
  with f r(1) show ?thesis by auto
qed

text \<open>
  C8. Every execution of the routine ends in one of three ways. If it completes, its
  effects are, in this order: the container is parented under the Decision, the bounds
  record is parented under the container, the bounds record is appended to the
  container's value array, the shape is inserted into the canvas, the notification is
  fired; and the object graph that is visible when the shape is inserted already has the
  container parented under the Decision and the parented bounds record at the end of
  the container's value array. If it throws, it has either done nothing, or only the
  two parenting assignments; the canvas and the notifications are untouched.
\<close>

theorem createDecisionDi_order:
  "case createDecisionDi createShape d m of
     Inr m' \<Rightarrow>
       (\<exists>c b s g vs.
          trace m' = trace m @
            [ContainerParented c d, BoundsParented (Some c), BoundsPushed c b, ShapeAdded s g,
             Fired \<lparr>event_name = ''drdElement.added'', element = s, di = Some c\<rparr>] \<and>
          extensionElements (decisions g d) = Some c \<and>
          ee_parent (containers g c) = Some d \<and>
          ee_values (containers g c) = Some (vs @ [b]) \<and>
          bounds_parent b = Some c \<and>
          canvas m' = canvas m @ [s] \<and> objects m' = g)
   | Inl (e, m') \<Rightarrow>
       canvas m' = canvas m \<and> fired m' = fired m \<and>
       (trace m' = trace m \<or>
        (\<exists>c. trace m' = trace m @ [ContainerParented c d, BoundsParented (Some c)]))"
proof -
  obtain s g where sg:
    "createShape \<lparr>attrs_type = ''dmn:Decision'', attrs_businessObject = d\<rparr> (objects m) = (s, g)"
    by (cases "createShape \<lparr>attrs_type = ''dmn:Decision'', attrs_businessObject = d\<rparr> (objects m)")
  show ?thesis
  proof (cases "extensionElements (decisions g d)")
    case None
    with createDecisionDi_no_container [where createShape = createShape, OF sg]
    show ?thesis by simp
  next
    case (Some c)
    note c = this
    show ?thesis
    proof (cases "ee_values (containers g c)")
      case None
      with createDecisionDi_no_values [where createShape = createShape, OF sg c]
      show ?thesis by simp
    next
      case (Some vs)
      with createDecisionDi_completes [where createShape = createShape, OF sg c] c
      show ?thesis by (simp add: Let_def)
    qed
  qed
qed

theorem createDecisionDi_order_witness:
  "\<exists>m' b s g vs.
     createDecisionDi (createShape_attaching 2 180 80) 0 fresh_modeler = Inr m' \<and>
     trace m' =
       [ContainerParented 2 0, BoundsParented (Some 2), BoundsPushed 2 b, ShapeAdded s g,
        Fired \<lparr>event_name = ''drdElement.added'', element = s, di = Some 2\<rparr>] \<and>
     ee_parent (containers g 2) = Some 0 \<and>
     ee_values (containers g 2) = Some (vs @ [b]) \<and>
     bounds_parent b = Some 2"
proof -
  from attaching_run obtain m' where r:
    "createDecisionDi (createShape_attaching 2 180 80) 0 fresh_modeler = Inr m'"
    "extensionElements (decisions (objects m') 0) = Some 2"
    by blast
  from createDecisionDi_order [where createShape = "createShape_attaching 2 180 80" and d = 0
      and m = fresh_modeler] r
  obtain b s g vs where f:
    "trace m' = trace fresh_modeler @
       [ContainerParented 2 0, BoundsParented (Some 2), BoundsPushed 2 b, ShapeAdded s g,
        Fired \<lparr>event_name = ''drdElement.added'', element = s, di = Some 2\<rparr>]"
    "ee_parent (containers g 2) = Some 0"
    "ee_values (containers g 2) = Some (vs @ [b])"
    "bounds_parent b = Some 2"
    by auto
  have "trace fresh_modeler = []"
    by (simp add: fresh_modeler_def)
  with f r(1) show ?thesis by auto
qed

section \<open>The constructor's options\<close>

text \<open>
  C10. Whatever options object the constructor is given, or none: the options passed to
  the Viewer have \<^verbatim>\<open>editor\<close> set to the table modeler component; \<^verbatim>\<open>editingAllowed\<close> is
  the caller's value when the caller's object has that property and \<^verbatim>\<open>true\<close> otherwise;
  every other property is exactly as the caller gave it.
\<close>

theorem Modeler_options_ok:
  "Modeler_options opts ''editor'' = Some TableModeler \<and>
   Modeler_options opts ''editingAllowed'' =
     (case opts of
        None \<Rightarrow> Some (Boolean True)
      | Some given \<Rightarrow>
          (case given ''editingAllowed'' of None \<Rightarrow> Some (Boolean True) | Some v \<Rightarrow> Some v)) \<and>
   (\<forall>k. k \<noteq> ''editor'' \<longrightarrow> k \<noteq> ''editingAllowed'' \<longrightarrow>
      Modeler_options opts k = (case opts of None \<Rightarrow> None | Some given \<Rightarrow> given k))"
  by (auto simp add: Modeler_options_def assign_def Let_def map_add_def split: option.splits)

theorem Modeler_options_ok_witness:
  "Modeler_options (Some caller_options) ''editor'' = Some TableModeler \<and>
   Modeler_options (Some caller_options) ''editingAllowed'' = Some (Boolean False) \<and>
   Modeler_options (Some caller_options) ''width'' = Some (Number 100) \<and>
   Modeler_options (Some caller_options) ''height'' = None \<and>
   Modeler_options None ''editor'' = Some TableModeler \<and>
   Modeler_options None ''editingAllowed'' = Some (Boolean True) \<and>
   Modeler_options None ''width'' = None"
  using Modeler_options_ok [of "Some caller_options"] Modeler_options_ok [of None]
  by (simp add: caller_options_def)

end
